theory Spec2Isabelle
  imports Complex_Main "HOL-Library.Sublist" "HOL-Library.Multiset"
begin

section \<open>Exceptions and data model of \<open>mcp.py\<close>\<close>

text \<open>
  Every exception the modelled code can raise is a value. \<open>HTTPException\<close> carries the
  status code and the detail string of FastAPI's exception; \<open>JWTError\<close> is the error of
  \<open>jose.jwt.decode\<close>; \<open>TransportError\<close> is what the \<open>httpx\<close> client raises when the
  request cannot be carried out; \<open>ValidationError\<close> is pydantic's; \<open>BackendError\<close>
  stands for any other exception a search backend may raise.
\<close>

datatype exception =
    HTTPException int string
  | JWTError string
  | TransportError string
  | ValidationError string
  | BackendError string

text \<open>
  The pydantic models. Timestamps are integers (microseconds); a score is a Python float
  and is modelled by the real number it denotes (the order on non-NaN floats is the order
  of these reals). The field \<open>exp\<close> of \<open>UserClaims\<close> is called \<open>exp_claim\<close> here, and the
  echoed fields \<open>query\<close> and \<open>sources\<close> of the response are called \<open>resp_query\<close> and
  \<open>resp_sources\<close>, since a record field name is a constant of the theory.
\<close>

record UserClaims =
  user_id :: string
  email :: string
  scopes :: "string list"
  exp_claim :: int

record SearchResult =
  title :: string
  source :: string
  url :: string
  snippet :: string
  score :: real
  last_modified :: "int option"
  content :: "string option"

record WorkplaceSearchRequest =
  query :: string
  sources :: "string list"
  max_results :: int
  include_content :: bool

record WorkplaceSearchResponse =
  results :: "SearchResult list"
  total_count :: int
  resp_query :: string
  resp_sources :: "string list"
  execution_time_ms :: int

text \<open>
  The \<open>arguments\<close> dictionary of a tool call, read at the four keys the request model
  declares: a key that is absent is \<open>None\<close>.
\<close>

record tool_arguments =
  arg_query :: "string option"
  arg_sources :: "string list option"
  arg_max_results :: "int option"
  arg_include_content :: "bool option"

section \<open>Python primitives\<close>

text \<open>\<open>s.startswith(p)\<close> on strings.\<close>

fun startswith :: "string \<Rightarrow> string \<Rightarrow> bool" where
  "startswith s [] = True"
| "startswith [] (p # ps) = False"
| "startswith (c # cs) (p # ps) = (c = p \<and> startswith cs ps)"

text \<open>
  The slice \<open>xs[:n]\<close>: the first \<open>n\<close> elements for \<open>n \<ge> 0\<close>, all but the last \<open>-n\<close>
  elements for a negative \<open>n\<close>.
\<close>

definition slice_to :: "'a list \<Rightarrow> int \<Rightarrow> 'a list" where
  "slice_to xs n =
     (if 0 \<le> n then take (nat n) xs else take (length xs - nat (- n)) xs)"

text \<open>\<open>timedelta(days=d)\<close> in microseconds.\<close>

definition days :: "int \<Rightarrow> int" where
  "days d = d * 86400000000"

section \<open>Authentication\<close>


text \<open>
  The payload at the keys \<open>sub\<close>, \<open>email\<close> and \<open>exp\<close> is read with \<open>payload.get(key)\<close>,
  which is \<open>None\<close> for an absent key and for a JSON null alike. The key \<open>permissions\<close>
  is read with \<open>payload.get("permissions", [])\<close>: the default stands for an absent key
  only, a null stays \<open>None\<close>.
\<close>

datatype permissions_claim = Absent | Null | Listed "string list"

record jwt_payload =
  sub :: "string option"
  email_field :: "string option"
  permissions :: permissions_claim
  exp_field :: "int option"




text \<open>
  \<open>check_scope\<close>: membership of the required scope in the list of scopes. (The direct
  search endpoint names it in a dependency that calls it without awaiting the result, so
  no request runs this body; it is modelled as the function it is.)
\<close>

definition check_scope :: "string \<Rightarrow> UserClaims \<Rightarrow> exception + UserClaims" where
  "check_scope required_scope user =
     (if required_scope \<notin> set (scopes user)
      then Inl (HTTPException 403
                  (''Insufficient permissions. Required scope: '' @ required_scope))
      else Inr user)"

text \<open>
  The permission check at the head of the \<open>workplace_search\<close> branch of \<open>call_tool\<close>,
  with the local variable \<open>required_scope\<close> as a parameter (the code binds it to
  \<open>workplace:read\<close>).
\<close>

definition call_tool_permission :: "string \<Rightarrow> UserClaims \<Rightarrow> exception + unit" where
  "call_tool_permission required_scope user =
     (if \<not> list_ex (\<lambda>scope. startswith scope required_scope) (scopes user)
      then Inl (HTTPException 403
                  (''Insufficient permissions. Required scope: '' @ required_scope @ '':*''))
      else Inr ())"

text \<open>
  \<open>list_tools\<close>, as the names of the tools it returns: \<open>workplace_search\<close> is listed
  for a caller with a scope that begins with \<open>workplace:read:\<close>.
\<close>

definition list_tools :: "UserClaims \<Rightarrow> string list" where
  "list_tools user =
     (if list_ex (\<lambda>scope. startswith scope ''workplace:read:'') (scopes user)
      then [''workplace_search''] else [])"

section \<open>The search service\<close>

text \<open>
  A search backend takes the query, the user's token for that backend (the result of
  \<open>user_tokens.get\<close>) and the result cap, and either raises or returns results. The two
  backends of \<open>WorkplaceSearchService\<close> are parameters of the aggregation, so that a
  backend that raises can be stated; the mocks of the source follow. A mock reads the
  clock once (\<open>datetime.utcnow()\<close>), given here as \<open>now\<close>.
\<close>

type_synonym adapter = "string \<Rightarrow> string option \<Rightarrow> int \<Rightarrow> exception + SearchResult list"

definition search_google_drive :: "int \<Rightarrow> adapter" where
  "search_google_drive now q user_token n =
     Inr (slice_to
       [\<lparr>title = ''Document about '' @ q,
         source = ''google_drive'',
         url = ''https://drive.google.com/doc/mock'',
         snippet = ''This document contains information about '' @ q @ ''...'',
         score = 0.95,
         last_modified = Some (now - days 1),
         content = Some (''Full content about '' @ q @ '' would be here...'')\<rparr>] n)"

definition search_notion :: "int \<Rightarrow> adapter" where
  "search_notion now q user_token n =
     Inr (slice_to
       [\<lparr>title = ''Notion page: '' @ q,
         source = ''notion'',
         url = ''https://notion.so/mock-page'',
         snippet = ''Notion content about '' @ q @ ''...'',
         score = 0.88,
         last_modified = Some (now - days 2),
         content = Some (''Full Notion content about '' @ q @ ''...'')\<rparr>] n)"

definition user_tokens :: "string \<Rightarrow> string option" where
  "user_tokens = [''google_drive'' \<mapsto> ''mock_google_token'', ''notion'' \<mapsto> ''mock_notion_token'']"

text \<open>
  One iteration of the loop over \<open>request.sources\<close>: the list by which \<open>all_results\<close>
  is extended. An exception of the backend is caught and logged, and nothing is added;
  a source that matches neither branch adds nothing.
\<close>

definition search_source ::
  "adapter \<Rightarrow> adapter \<Rightarrow> WorkplaceSearchRequest \<Rightarrow> UserClaims \<Rightarrow> string \<Rightarrow> SearchResult list" where
  "search_source gd nt request user src =
     (if src = ''google_drive'' \<and> ''workplace:read:google_drive'' \<in> set (scopes user) then
        (case gd (query request) (user_tokens ''google_drive'') (max_results request) of
           Inr rs \<Rightarrow> rs
         | Inl e \<Rightarrow> [])
      else if src = ''notion'' \<and> ''workplace:read:notion'' \<in> set (scopes user) then
        (case nt (query request) (user_tokens ''notion'') (max_results request) of
           Inr rs \<Rightarrow> rs
         | Inl e \<Rightarrow> [])
      else [])"

text \<open>The loop: \<open>all_results\<close> is the accumulator.\<close>

fun collect ::
  "adapter \<Rightarrow> adapter \<Rightarrow> WorkplaceSearchRequest \<Rightarrow> UserClaims \<Rightarrow> string list
     \<Rightarrow> SearchResult list \<Rightarrow> SearchResult list" where
  "collect gd nt request user [] all_results = all_results"
| "collect gd nt request user (src # rest) all_results =
     collect gd nt request user rest (all_results @ search_source gd nt request user src)"

text \<open>
  \<open>all_results.sort(key=lambda x: x.score, reverse=True)\<close>: Python's sort is stable,
  also with \<open>reverse=True\<close>, so its result is the one list that is ordered by descending
  score and keeps results of equal score in their order. It is computed here by
  insertion from the right, each result going in front of the first one whose score is
  not higher.
\<close>

fun insert_by_score :: "SearchResult \<Rightarrow> SearchResult list \<Rightarrow> SearchResult list" where
  "insert_by_score x [] = [x]"
| "insert_by_score x (y # ys) =
     (if score x < score y then y # insert_by_score x ys else x # y # ys)"

fun sort_by_score :: "SearchResult list \<Rightarrow> SearchResult list" where
  "sort_by_score [] = []"
| "sort_by_score (x # xs) = insert_by_score x (sort_by_score xs)"

text \<open>
  \<open>WorkplaceSearchService.search\<close>. The measured duration in milliseconds is given as
  \<open>elapsed_ms\<close>.
\<close>

definition search ::
  "adapter \<Rightarrow> adapter \<Rightarrow> int \<Rightarrow> WorkplaceSearchRequest \<Rightarrow> UserClaims \<Rightarrow> WorkplaceSearchResponse" where
  "search gd nt elapsed_ms request user =
     (let all_results = collect gd nt request user (sources request) [];
          final_results = slice_to (sort_by_score all_results) (max_results request)
      in \<lparr>results = final_results,
          total_count = int (length final_results),
          resp_query = query request,
          resp_sources = sources request,
          execution_time_ms = elapsed_ms\<rparr>)"

text \<open>
  Construction of \<open>WorkplaceSearchRequest\<close> from the arguments of a tool call:
  \<open>query\<close> is required, \<open>max_results\<close> is declared with \<open>ge=1, le=50\<close>, the other fields
  have defaults.
\<close>

definition WorkplaceSearchRequest_make :: "tool_arguments \<Rightarrow> exception + WorkplaceSearchRequest" where
  "WorkplaceSearchRequest_make args =
     (case arg_query args of
        None \<Rightarrow> Inl (ValidationError ''query: field required'')
      | Some q \<Rightarrow>
          (let m = (case arg_max_results args of None \<Rightarrow> 10 | Some m' \<Rightarrow> m') in
           if m < 1 then Inl (ValidationError ''max_results: greater than or equal to 1'')
           else if 50 < m then Inl (ValidationError ''max_results: less than or equal to 50'')
           else Inr \<lparr>query = q,
                     sources = (case arg_sources args of
                                  None \<Rightarrow> [''google_drive'', ''notion'']
                                | Some s \<Rightarrow> s),
                     max_results = m,
                     include_content = (case arg_include_content args of
                                          None \<Rightarrow> True
                                        | Some b \<Rightarrow> b)\<rparr>))"

text \<open>
  The envelope of \<open>call_tool\<close> holds \<open>json.dumps(search_response.dict())\<close>. The
  dictionary keeps \<open>last_modified\<close> as a \<open>datetime\<close>, which \<open>json.dumps\<close> refuses with a
  \<open>TypeError\<close>; strings, numbers and \<open>None\<close> are serialized.
\<close>

definition json_serializable :: "WorkplaceSearchResponse \<Rightarrow> bool" where
  "json_serializable response = list_all (\<lambda>r. last_modified r = None) (results response)"

text \<open>
  \<open>call_tool\<close>. The envelope is represented by the search response it is built from;
  the audit posts, whose failures are swallowed, are left out. An \<open>HTTPException\<close> is
  raised again; any other exception (of the request's validation, of \<open>json.dumps\<close>)
  becomes 500.
\<close>

definition call_tool ::
  "adapter \<Rightarrow> adapter \<Rightarrow> int \<Rightarrow> string \<Rightarrow> tool_arguments \<Rightarrow> UserClaims
     \<Rightarrow> exception + WorkplaceSearchResponse" where
  "call_tool gd nt elapsed_ms tool_name arguments user =
     (if tool_name = ''workplace_search'' then
        (case call_tool_permission ''workplace:read'' user of
           Inl e \<Rightarrow> Inl e
         | Inr _ \<Rightarrow>
             (case WorkplaceSearchRequest_make arguments of
                Inl e \<Rightarrow> Inl (HTTPException 500 ''Internal server error'')
              | Inr search_request \<Rightarrow>
                  (let search_response = search gd nt elapsed_ms search_request user in
                   if json_serializable search_response then Inr search_response
                   else Inl (HTTPException 500 ''Internal server error''))))
      else Inl (HTTPException 404 (''Tool '' @ [CHR 0x27] @ tool_name @ [CHR 0x27] @ '' not found'')))"

section \<open>The authorization rule as the specification words it\<close>

text \<open>
  The rule of the specification's authorization gate, for comparison with the two checks
  of the code: a claim set grants \<open>required\<close> if it holds a scope equal to it, or a scope
  that is \<open>required\<close> followed by a colon and a suffix.
\<close>

definition spec_authorize :: "UserClaims \<Rightarrow> string \<Rightarrow> bool" where
  "spec_authorize claims required =
     list_ex (\<lambda>s. s = required \<or> startswith s (required @ '':'')) (scopes claims)"

section \<open>Basic facts\<close>

lemma startswith_prefix: "startswith s p = prefix p s"
  by (induction s p rule: startswith.induct) auto

lemma collect_concat:
  "collect gd nt request user srcs acc =
     acc @ concat (map (search_source gd nt request user) srcs)"
  by (induction srcs arbitrary: acc) simp_all

lemma length_insert_by_score: "length (insert_by_score x ys) = Suc (length ys)"
  by (induction ys) simp_all

lemma length_sort_by_score: "length (sort_by_score xs) = length xs"
  by (induction xs) (simp_all add: length_insert_by_score)

lemma mset_insert_by_score: "mset (insert_by_score x ys) = add_mset x (mset ys)"
  by (induction ys) simp_all

lemma mset_sort_by_score: "mset (sort_by_score xs) = mset xs"
  by (induction xs) (simp_all add: mset_insert_by_score)

lemma set_insert_by_score: "set (insert_by_score x ys) = insert x (set ys)"
  by (induction ys) auto

lemma descending_insert_by_score:
  "sorted_wrt (\<lambda>a b. score b \<le> score a) ys
     \<Longrightarrow> sorted_wrt (\<lambda>a b. score b \<le> score a) (insert_by_score x ys)"
  by (induction ys) (auto simp: set_insert_by_score)

lemma descending_sort_by_score: "sorted_wrt (\<lambda>a b. score b \<le> score a) (sort_by_score xs)"
  by (induction xs) (simp_all add: descending_insert_by_score)

lemma filter_insert_by_score:
  "filter (\<lambda>r. score r = v) (insert_by_score x ys) =
     (if score x = v then x # filter (\<lambda>r. score r = v) ys else filter (\<lambda>r. score r = v) ys)"
  by (induction ys) auto

lemma stable_sort_by_score:
  "filter (\<lambda>r. score r = v) (sort_by_score xs) = filter (\<lambda>r. score r = v) xs"
  by (induction xs) (simp_all add: filter_insert_by_score)

lemma slice_to_prefix: "prefix (slice_to xs n) xs"
  by (simp add: slice_to_def take_is_prefix)

lemma results_search:
  "results (search gd nt elapsed_ms request user) =
     slice_to (sort_by_score (concat (map (search_source gd nt request user) (sources request))))
       (max_results request)"
  by (simp add: search_def Let_def collect_concat)

lemma concat_map_Nil: "concat (map (\<lambda>x. []) xs) = []"
  by (induction xs) simp_all

lemma search_source_unrecognized:
  "src \<noteq> ''google_drive'' \<Longrightarrow> src \<noteq> ''notion'' \<Longrightarrow> search_source gd nt request user src = []"
  by (simp add: search_source_def)

lemma search_source_sources_update:
  "search_source gd nt (request\<lparr>sources := xs\<rparr>) user = search_source gd nt request user"
  by (simp add: search_source_def fun_eq_iff)

text \<open>
  The model of the sort does not depend on the algorithm: a list with the same elements
  that is in descending order of score and keeps every group of equal score in its
  order is the result of \<open>sort_by_score\<close>.
\<close>

lemma sort_by_score_unique:
  assumes "mset ys = mset xs"
    and "sorted_wrt (\<lambda>a b. score b \<le> score a) ys"
    and "\<And>v. filter (\<lambda>r. score r = v) ys = filter (\<lambda>r. score r = v) xs"
  shows "ys = sort_by_score xs"
proof -
  let ?f = "\<lambda>r. - score r"
  have s1: "sorted (map ?f zs) = sorted_wrt (\<lambda>a b. score b \<le> score a) zs" for zs
    by (simp add: sorted_map)
  have flip: "filter (\<lambda>x. score k = score x) zs = filter (\<lambda>r. score r = score k) zs"
    for k :: SearchResult and zs
    by (rule filter_cong) auto
  have "sort_key ?f xs = ys"
    by (rule properties_for_sort_key) (simp_all add: assms flip s1)
  moreover have "sort_key ?f xs = sort_by_score xs"
    by (rule properties_for_sort_key)
      (simp_all add: mset_sort_by_score flip s1 descending_sort_by_score stable_sort_by_score)
  ultimately show ?thesis by simp
qed

lemma spec_authorize_iff:
  "spec_authorize claims required =
     (\<exists>s \<in> set (scopes claims). s = required \<or> (\<exists>suffix. s = required @ '':'' @ suffix))"
  by (auto simp: spec_authorize_def list_ex_iff startswith_prefix prefix_def)

section \<open>Authorization\<close>

text \<open>
  The permission check of \<open>call_tool\<close> accepts exactly the claim sets with a scope that
  begins with the required string, delimiter or not; \<open>check_scope\<close> accepts exactly
  those that hold the required string itself.
\<close>

lemma call_tool_permission_prefix:
  "(call_tool_permission r user = Inr ()) = (\<exists>s \<in> set (scopes user). prefix r s)"
  by (simp add: call_tool_permission_def list_ex_iff startswith_prefix)

lemma spec_authorize_call_tool_permission:
  "spec_authorize user r \<Longrightarrow> call_tool_permission r user = Inr ()"
  by (simp add: call_tool_permission_prefix spec_authorize_iff) (metis prefixI prefix_order.order_refl)

lemma check_scope_membership:
  "(check_scope r user = Inr user) = (r \<in> set (scopes user))"
  by (simp add: check_scope_def)

text \<open>
  C1. The rule of the claim (a scope equal to the required string, or the required string
  followed by a colon and a suffix) is not what \<open>call_tool\<close> checks. For the claim set
  with the one scope \<open>workplace:readonly\<close> the rule does not grant \<open>workplace:read\<close>,
  and \<open>list_tools\<close>, which tests the prefix \<open>workplace:read:\<close>, does not list the tool;
  yet the check of \<open>call_tool\<close>, which tests the prefix \<open>workplace:read\<close>, accepts, and
  the call is answered with a search response instead of the 403 whose message names the
  pattern \<open>workplace:read:*\<close>.
\<close>

theorem call_tool_admits_undelimited_scope:
  "\<not> spec_authorize
        \<lparr>user_id = ''u1'', email = ''u1@example.com'',
         scopes = [''workplace:readonly''], exp_claim = 0\<rparr> ''workplace:read''
   \<and> list_tools
        \<lparr>user_id = ''u1'', email = ''u1@example.com'',
         scopes = [''workplace:readonly''], exp_claim = 0\<rparr> = []
   \<and> call_tool_permission ''workplace:read''
        \<lparr>user_id = ''u1'', email = ''u1@example.com'',
         scopes = [''workplace:readonly''], exp_claim = 0\<rparr> = Inr ()
   \<and> call_tool (search_google_drive 0) (search_notion 0) 7 ''workplace_search''
        \<lparr>arg_query = Some ''budget'', arg_sources = None, arg_max_results = None,
         arg_include_content = None\<rparr>
        \<lparr>user_id = ''u1'', email = ''u1@example.com'',
         scopes = [''workplace:readonly''], exp_claim = 0\<rparr> =
       Inr \<lparr>results = [], total_count = 0, resp_query = ''budget'',
            resp_sources = [''google_drive'', ''notion''], execution_time_ms = 7\<rparr>
   \<and> call_tool_permission ''workplace:read''
        \<lparr>user_id = ''u1'', email = ''u1@example.com'',
         scopes = [''calendar:read''], exp_claim = 0\<rparr> =
       Inl (HTTPException 403 ''Insufficient permissions. Required scope: workplace:read:*'')"
  by (simp add: spec_authorize_def list_tools_def call_tool_permission_def call_tool_def
      WorkplaceSearchRequest_make_def search_def search_source_def slice_to_def
      json_serializable_def)

section \<open>Token verification\<close>




section \<open>Aggregation\<close>

text \<open>
  C2. If the Google Drive backend raises at the call the aggregation makes, \<open>search\<close>
  still returns a response; its results are the ranked and truncated results that the
  Notion backend returned for the \<open>notion\<close> entries of the request the claim set is
  scoped for, and the whole response is the one that a Google Drive backend with no
  results would have given. The same holds with the two backends exchanged. (\<open>search\<close>
  returns a response and no exception for every input: the only calls that can raise
  are inside the \<open>try\<close> of the loop, and \<open>except Exception\<close> absorbs them.)
\<close>

theorem adapter_failure_absorbed:
  "(gd (query request) (user_tokens ''google_drive'') (max_results request) = Inl e \<longrightarrow>
      results (search gd nt elapsed_ms request user) =
        slice_to (sort_by_score (concat (map
          (\<lambda>src. if src = ''notion'' \<and> ''workplace:read:notion'' \<in> set (scopes user)
                 then (case nt (query request) (user_tokens ''notion'') (max_results request) of
                         Inr rs \<Rightarrow> rs | Inl e' \<Rightarrow> [])
                 else [])
          (sources request)))) (max_results request)
      \<and> total_count (search gd nt elapsed_ms request user) =
          int (length (results (search gd nt elapsed_ms request user)))
      \<and> search gd nt elapsed_ms request user =
          search (\<lambda>q t n. Inr []) nt elapsed_ms request user)
   \<and> (nt (query request) (user_tokens ''notion'') (max_results request) = Inl e \<longrightarrow>
      results (search gd nt elapsed_ms request user) =
        slice_to (sort_by_score (concat (map
          (\<lambda>src. if src = ''google_drive'' \<and> ''workplace:read:google_drive'' \<in> set (scopes user)
                 then (case gd (query request) (user_tokens ''google_drive'') (max_results request) of
                         Inr rs \<Rightarrow> rs | Inl e' \<Rightarrow> [])
                 else [])
          (sources request)))) (max_results request)
      \<and> total_count (search gd nt elapsed_ms request user) =
          int (length (results (search gd nt elapsed_ms request user)))
      \<and> search gd nt elapsed_ms request user =
          search gd (\<lambda>q t n. Inr []) elapsed_ms request user)"
proof -
  have tc: "total_count (search gd nt elapsed_ms request user) =
          int (length (results (search gd nt elapsed_ms request user)))"
    by (simp add: search_def Let_def)
  have gd_fails: "search_source gd nt request user =
      (\<lambda>src. if src = ''notion'' \<and> ''workplace:read:notion'' \<in> set (scopes user)
                 then (case nt (query request) (user_tokens ''notion'') (max_results request) of
                         Inr rs \<Rightarrow> rs | Inl e' \<Rightarrow> [])
                 else [])"
    and gd_empty: "search_source gd nt request user = search_source (\<lambda>q t n. Inr []) nt request user"
    if "gd (query request) (user_tokens ''google_drive'') (max_results request) = Inl e"
    using that by (auto simp: search_source_def fun_eq_iff)
  have nt_fails: "search_source gd nt request user =
      (\<lambda>src. if src = ''google_drive'' \<and> ''workplace:read:google_drive'' \<in> set (scopes user)
                 then (case gd (query request) (user_tokens ''google_drive'') (max_results request) of
                         Inr rs \<Rightarrow> rs | Inl e' \<Rightarrow> [])
                 else [])"
    and nt_empty: "search_source gd nt request user = search_source gd (\<lambda>q t n. Inr []) request user"
    if "nt (query request) (user_tokens ''notion'') (max_results request) = Inl e"
    using that by (auto simp: search_source_def fun_eq_iff)
  show ?thesis
  proof (intro conjI impI)
    assume a: "gd (query request) (user_tokens ''google_drive'') (max_results request) = Inl e"
    show "results (search gd nt elapsed_ms request user) =
        slice_to (sort_by_score (concat (map
          (\<lambda>src. if src = ''notion'' \<and> ''workplace:read:notion'' \<in> set (scopes user)
                 then (case nt (query request) (user_tokens ''notion'') (max_results request) of
                         Inr rs \<Rightarrow> rs | Inl e' \<Rightarrow> [])
                 else [])
          (sources request)))) (max_results request)"
      by (simp only: results_search gd_fails [OF a])
    show "search gd nt elapsed_ms request user = search (\<lambda>q t n. Inr []) nt elapsed_ms request user"
      by (simp add: search_def collect_concat gd_empty [OF a])
  next
    assume a: "nt (query request) (user_tokens ''notion'') (max_results request) = Inl e"
    show "results (search gd nt elapsed_ms request user) =
        slice_to (sort_by_score (concat (map
          (\<lambda>src. if src = ''google_drive'' \<and> ''workplace:read:google_drive'' \<in> set (scopes user)
                 then (case gd (query request) (user_tokens ''google_drive'') (max_results request) of
                         Inr rs \<Rightarrow> rs | Inl e' \<Rightarrow> [])
                 else [])
          (sources request)))) (max_results request)"
      by (simp only: results_search nt_fails [OF a])
    show "search gd nt elapsed_ms request user = search gd (\<lambda>q t n. Inr []) elapsed_ms request user"
      by (simp add: search_def collect_concat nt_empty [OF a])
  qed (rule tc)+
qed

text \<open>
  A Google Drive backend that times out, next to the Notion mock: the response holds the
  Notion result alone.
\<close>

theorem adapter_failure_absorbed_witness:
  "(\<lambda>q t n. Inl (BackendError ''timeout''))
      (query \<lparr>query = ''budget'', sources = [''google_drive'', ''notion''], max_results = 10,
              include_content = True\<rparr>)
      (user_tokens ''google_drive'')
      (max_results \<lparr>query = ''budget'', sources = [''google_drive'', ''notion''], max_results = 10,
              include_content = True\<rparr>) = (Inl (BackendError ''timeout'') :: exception + SearchResult list)
   \<and> results (search (\<lambda>q t n. Inl (BackendError ''timeout'')) (search_notion 0) 7
        \<lparr>query = ''budget'', sources = [''google_drive'', ''notion''], max_results = 10,
         include_content = True\<rparr>
        \<lparr>user_id = ''u1'', email = ''u1@example.com'',
         scopes = [''workplace:read:google_drive'', ''workplace:read:notion''], exp_claim = 0\<rparr>) =
       [\<lparr>title = ''Notion page: budget'',
         source = ''notion'',
         url = ''https://notion.so/mock-page'',
         snippet = ''Notion content about budget...'',
         score = 0.88,
         last_modified = Some (0 - days 2),
         content = Some ''Full Notion content about budget...''\<rparr>]"
  using adapter_failure_absorbed [of "\<lambda>q t n. Inl (BackendError ''timeout'')"
      "\<lparr>query = ''budget'', sources = [''google_drive'', ''notion''], max_results = 10,
         include_content = True\<rparr>" "BackendError ''timeout''" "search_notion 0" 7
      "\<lparr>user_id = ''u1'', email = ''u1@example.com'',
         scopes = [''workplace:read:google_drive'', ''workplace:read:notion''], exp_claim = 0\<rparr>"]
  by (simp add: search_def search_source_def search_notion_def slice_to_def user_tokens_def)

text \<open>
  C3. For \<open>max_results = k\<close> with \<open>1 \<le> k \<le> 50\<close>, the results of \<open>search\<close> have length
  \<open>min k n\<close>, where \<open>n\<close> is the number of results collected over all sources, and so
  never more than \<open>k\<close>; they are the first \<open>k\<close> of the ranked combined list, so the cap
  is on the whole and not on each source; \<open>total_count\<close> is that length.
\<close>

theorem truncation_total:
  "1 \<le> max_results request \<and> max_results request \<le> 50 \<longrightarrow>
     length (results (search gd nt elapsed_ms request user)) =
       min (nat (max_results request))
           (length (collect gd nt request user (sources request) []))
     \<and> int (length (results (search gd nt elapsed_ms request user))) \<le> max_results request
     \<and> results (search gd nt elapsed_ms request user) =
         take (nat (max_results request))
           (sort_by_score (collect gd nt request user (sources request) []))
     \<and> total_count (search gd nt elapsed_ms request user) =
         min (max_results request)
             (int (length (collect gd nt request user (sources request) [])))"
  by (auto simp: search_def Let_def slice_to_def length_sort_by_score)

text \<open>
  Three results are collected (Google Drive is listed twice) and \<open>max_results = 2\<close>
  leaves two.
\<close>

theorem truncation_total_witness:
  "1 \<le> max_results \<lparr>query = ''budget'', sources = [''google_drive'', ''notion'', ''google_drive''],
                      max_results = 2, include_content = True\<rparr>
   \<and> max_results \<lparr>query = ''budget'', sources = [''google_drive'', ''notion'', ''google_drive''],
                      max_results = 2, include_content = True\<rparr> \<le> 50
   \<and> length (collect (search_google_drive 0) (search_notion 0)
        \<lparr>query = ''budget'', sources = [''google_drive'', ''notion'', ''google_drive''],
         max_results = 2, include_content = True\<rparr>
        \<lparr>user_id = ''u1'', email = ''u1@example.com'',
         scopes = [''workplace:read:google_drive'', ''workplace:read:notion''], exp_claim = 0\<rparr>
        [''google_drive'', ''notion'', ''google_drive''] []) = 3
   \<and> length (results (search (search_google_drive 0) (search_notion 0) 7
        \<lparr>query = ''budget'', sources = [''google_drive'', ''notion'', ''google_drive''],
         max_results = 2, include_content = True\<rparr>
        \<lparr>user_id = ''u1'', email = ''u1@example.com'',
         scopes = [''workplace:read:google_drive'', ''workplace:read:notion''], exp_claim = 0\<rparr>)) = 2"
  using truncation_total [of
        "\<lparr>query = ''budget'', sources = [''google_drive'', ''notion'', ''google_drive''],
         max_results = 2, include_content = True\<rparr>"
        "search_google_drive 0" "search_notion 0" 7
        "\<lparr>user_id = ''u1'', email = ''u1@example.com'',
         scopes = [''workplace:read:google_drive'', ''workplace:read:notion''], exp_claim = 0\<rparr>"]
  by (simp add: search_source_def search_google_drive_def search_notion_def slice_to_def)

text \<open>
  C4. The results of \<open>search\<close> are the leading part of a list that holds exactly the
  collected results, is in descending order of score, and keeps the results of every score
  in the order in which they arrived; the length of that leading part is the cap (for a
  negative \<open>max_results\<close>, what the slice leaves). So the results are in descending order
  of score, and those of equal score stand in their order of arrival. The arrival order
  is that of the loop: source after source of the request, and within a source the order
  in which its backend returned the results.
\<close>

theorem ranking_descending_stable:
  "(\<exists>rest.
      mset (results (search gd nt elapsed_ms request user) @ rest) =
        mset (collect gd nt request user (sources request) [])
      \<and> sorted_wrt (\<lambda>a b. score b \<le> score a)
          (results (search gd nt elapsed_ms request user) @ rest)
      \<and> (\<forall>v. filter (\<lambda>r. score r = v) (results (search gd nt elapsed_ms request user) @ rest) =
               filter (\<lambda>r. score r = v) (collect gd nt request user (sources request) [])))
   \<and> length (results (search gd nt elapsed_ms request user)) =
       (if 0 \<le> max_results request
        then min (nat (max_results request))
               (length (collect gd nt request user (sources request) []))
        else length (collect gd nt request user (sources request) [])
               - nat (- max_results request))
   \<and> sorted_wrt (\<lambda>a b. score b \<le> score a) (results (search gd nt elapsed_ms request user))
   \<and> (\<forall>v. prefix (filter (\<lambda>r. score r = v) (results (search gd nt elapsed_ms request user)))
                  (filter (\<lambda>r. score r = v) (collect gd nt request user (sources request) [])))
   \<and> collect gd nt request user (sources request) [] =
       concat (map (search_source gd nt request user) (sources request))"
proof -
  let ?all = "collect gd nt request user (sources request) []"
  let ?res = "results (search gd nt elapsed_ms request user)"
  have res: "?res = slice_to (sort_by_score ?all) (max_results request)"
    by (simp add: search_def Let_def)
  have "prefix (slice_to (sort_by_score ?all) (max_results request)) (sort_by_score ?all)"
    by (rule slice_to_prefix)
  then obtain zs where zs: "sort_by_score ?all = ?res @ zs"
    unfolding res prefix_def by blast
  have perm: "mset (?res @ zs) = mset ?all"
    unfolding zs [symmetric] by (rule mset_sort_by_score)
  have desc: "sorted_wrt (\<lambda>a b. score b \<le> score a) (?res @ zs)"
    unfolding zs [symmetric] by (rule descending_sort_by_score)
  have keep: "filter (\<lambda>r. score r = v) (?res @ zs) = filter (\<lambda>r. score r = v) ?all" for v
    unfolding zs [symmetric] by (rule stable_sort_by_score)
  have whole: "\<exists>rest. mset (?res @ rest) = mset ?all
      \<and> sorted_wrt (\<lambda>a b. score b \<le> score a) (?res @ rest)
      \<and> (\<forall>v. filter (\<lambda>r. score r = v) (?res @ rest) = filter (\<lambda>r. score r = v) ?all)"
    using perm desc keep by blast
  have len: "length ?res =
       (if 0 \<le> max_results request
        then min (nat (max_results request)) (length ?all)
        else length ?all - nat (- max_results request))"
    by (simp add: res slice_to_def length_sort_by_score min.commute)
  have sorted: "sorted_wrt (\<lambda>a b. score b \<le> score a) ?res"
    using desc by (simp add: sorted_wrt_append)
  have stable: "prefix (filter (\<lambda>r. score r = v) ?res) (filter (\<lambda>r. score r = v) ?all)" for v
    using keep [of v] by (simp add: prefix_def) metis
  have arrival: "?all = concat (map (search_source gd nt request user) (sources request))"
    by (simp add: collect_concat)
  from whole len sorted stable arrival show ?thesis by blast
qed

text \<open>
  Two backends with tied scores: Google Drive returns \<open>a\<close> (0.5) and \<open>b\<close> (0.9), Notion
  returns \<open>c\<close> (0.9) and \<open>d\<close> (0.5). With \<open>max_results = 3\<close> the response is \<open>b\<close>, \<open>c\<close>,
  \<open>a\<close>: the higher score first, \<open>b\<close> before \<open>c\<close> as they arrived, and \<open>a\<close>, which arrived
  before \<open>d\<close>, in the last place.
\<close>

theorem ranking_descending_stable_witness:
  "collect
      (\<lambda>q t n. Inr
          [\<lparr>title = ''a'', source = ''google_drive'', url = [], snippet = [],
            score = 0.5, last_modified = None, content = None\<rparr>,
           \<lparr>title = ''b'', source = ''google_drive'', url = [], snippet = [],
            score = 0.9, last_modified = None, content = None\<rparr>])
      (\<lambda>q t n. Inr
          [\<lparr>title = ''c'', source = ''notion'', url = [], snippet = [],
            score = 0.9, last_modified = None, content = None\<rparr>,
           \<lparr>title = ''d'', source = ''notion'', url = [], snippet = [],
            score = 0.5, last_modified = None, content = None\<rparr>])
      \<lparr>query = ''budget'', sources = [''google_drive'', ''notion''], max_results = 3,
         include_content = True\<rparr>
      \<lparr>user_id = ''u1'', email = ''u1@example.com'',
         scopes = [''workplace:read:google_drive'', ''workplace:read:notion''], exp_claim = 0\<rparr>
      [''google_drive'', ''notion''] [] =
     [\<lparr>title = ''a'', source = ''google_drive'', url = [], snippet = [],
            score = 0.5, last_modified = None, content = None\<rparr>,
      \<lparr>title = ''b'', source = ''google_drive'', url = [], snippet = [],
            score = 0.9, last_modified = None, content = None\<rparr>,
      \<lparr>title = ''c'', source = ''notion'', url = [], snippet = [],
            score = 0.9, last_modified = None, content = None\<rparr>,
      \<lparr>title = ''d'', source = ''notion'', url = [], snippet = [],
            score = 0.5, last_modified = None, content = None\<rparr>]
   \<and> results (search
      (\<lambda>q t n. Inr
          [\<lparr>title = ''a'', source = ''google_drive'', url = [], snippet = [],
            score = 0.5, last_modified = None, content = None\<rparr>,
           \<lparr>title = ''b'', source = ''google_drive'', url = [], snippet = [],
            score = 0.9, last_modified = None, content = None\<rparr>])
      (\<lambda>q t n. Inr
          [\<lparr>title = ''c'', source = ''notion'', url = [], snippet = [],
            score = 0.9, last_modified = None, content = None\<rparr>,
           \<lparr>title = ''d'', source = ''notion'', url = [], snippet = [],
            score = 0.5, last_modified = None, content = None\<rparr>]) 7
      \<lparr>query = ''budget'', sources = [''google_drive'', ''notion''], max_results = 3,
         include_content = True\<rparr>
      \<lparr>user_id = ''u1'', email = ''u1@example.com'',
         scopes = [''workplace:read:google_drive'', ''workplace:read:notion''], exp_claim = 0\<rparr>) =
     [\<lparr>title = ''b'', source = ''google_drive'', url = [], snippet = [],
            score = 0.9, last_modified = None, content = None\<rparr>,
      \<lparr>title = ''c'', source = ''notion'', url = [], snippet = [],
            score = 0.9, last_modified = None, content = None\<rparr>,
      \<lparr>title = ''a'', source = ''google_drive'', url = [], snippet = [],
            score = 0.5, last_modified = None, content = None\<rparr>]"
  using ranking_descending_stable [of
      "\<lambda>q t n. Inr
          [\<lparr>title = ''a'', source = ''google_drive'', url = [], snippet = [],
            score = 0.5, last_modified = None, content = None\<rparr>,
           \<lparr>title = ''b'', source = ''google_drive'', url = [], snippet = [],
            score = 0.9, last_modified = None, content = None\<rparr>]"
      "\<lambda>q t n. Inr
          [\<lparr>title = ''c'', source = ''notion'', url = [], snippet = [],
            score = 0.9, last_modified = None, content = None\<rparr>,
           \<lparr>title = ''d'', source = ''notion'', url = [], snippet = [],
            score = 0.5, last_modified = None, content = None\<rparr>]" 7
      "\<lparr>query = ''budget'', sources = [''google_drive'', ''notion''], max_results = 3,
         include_content = True\<rparr>"
      "\<lparr>user_id = ''u1'', email = ''u1@example.com'',
         scopes = [''workplace:read:google_drive'', ''workplace:read:notion''], exp_claim = 0\<rparr>"]
  by (simp add: search_def search_source_def slice_to_def)

text \<open>
  C6. With an empty \<open>sources\<close> list, \<open>search\<close> returns a response with no results and
  \<open>total_count = 0\<close>, whatever the backends, the claim set and the other fields of the
  request are.
\<close>

theorem empty_sources:
  "results (search gd nt elapsed_ms (request\<lparr>sources := []\<rparr>) user) = []
   \<and> total_count (search gd nt elapsed_ms (request\<lparr>sources := []\<rparr>) user) = 0"
  by (simp add: search_def slice_to_def)

text \<open>
  C7. The end-to-end scenario with the two mocks: claim set scoped for both sources,
  query \<open>budget\<close>, both sources, \<open>max_results = 1\<close>. The response has exactly one
  result, the Google Drive one, whose score 0.95 is the higher of the two scores the
  backends returned (0.95 and 0.88); \<open>sources\<close> is echoed and \<open>total_count = 1\<close>.
\<close>

theorem end_to_end_budget:
  "search (search_google_drive t1) (search_notion t2) elapsed_ms
     \<lparr>query = ''budget'', sources = [''google_drive'', ''notion''], max_results = 1,
      include_content = True\<rparr>
     \<lparr>user_id = u, email = e,
      scopes = [''workplace:read:google_drive'', ''workplace:read:notion''], exp_claim = x\<rparr>
   = \<lparr>results =
        [\<lparr>title = ''Document about budget'',
          source = ''google_drive'',
          url = ''https://drive.google.com/doc/mock'',
          snippet = ''This document contains information about budget...'',
          score = 0.95,
          last_modified = Some (t1 - days 1),
          content = Some ''Full content about budget would be here...''\<rparr>],
      total_count = 1,
      resp_query = ''budget'',
      resp_sources = [''google_drive'', ''notion''],
      execution_time_ms = elapsed_ms\<rparr>
   \<and> search_google_drive t1 ''budget'' (user_tokens ''google_drive'') 1 =
       Inr [\<lparr>title = ''Document about budget'',
          source = ''google_drive'',
          url = ''https://drive.google.com/doc/mock'',
          snippet = ''This document contains information about budget...'',
          score = 0.95,
          last_modified = Some (t1 - days 1),
          content = Some ''Full content about budget would be here...''\<rparr>]
   \<and> (\<exists>r. search_notion t2 ''budget'' (user_tokens ''notion'') 1 = Inr [r] \<and> score r = 0.88)
   \<and> (0.88 :: real) < 0.95"
  by (simp add: search_def search_source_def search_google_drive_def search_notion_def
      slice_to_def user_tokens_def)

text \<open>
  C9 (as amended). A source name other than \<open>google_drive\<close> and \<open>notion\<close>, at any
  place of the \<open>sources\<close> list, adds no result and raises nothing: the results, the
  \<open>total_count\<close>, the echoed query and the duration of the response are those of the
  request without that entry. The \<open>sources\<close> field of the response echoes the list of
  the request as it is, the unrecognized name included.
\<close>

theorem unrecognized_source_ignored:
  "src \<noteq> ''google_drive'' \<and> src \<noteq> ''notion'' \<longrightarrow>
     results (search gd nt elapsed_ms (request\<lparr>sources := xs @ src # ys\<rparr>) user) =
       results (search gd nt elapsed_ms (request\<lparr>sources := xs @ ys\<rparr>) user)
     \<and> total_count (search gd nt elapsed_ms (request\<lparr>sources := xs @ src # ys\<rparr>) user) =
       total_count (search gd nt elapsed_ms (request\<lparr>sources := xs @ ys\<rparr>) user)
     \<and> resp_query (search gd nt elapsed_ms (request\<lparr>sources := xs @ src # ys\<rparr>) user) =
       resp_query (search gd nt elapsed_ms (request\<lparr>sources := xs @ ys\<rparr>) user)
     \<and> execution_time_ms (search gd nt elapsed_ms (request\<lparr>sources := xs @ src # ys\<rparr>) user) =
       execution_time_ms (search gd nt elapsed_ms (request\<lparr>sources := xs @ ys\<rparr>) user)
     \<and> resp_sources (search gd nt elapsed_ms (request\<lparr>sources := xs @ src # ys\<rparr>) user) =
       xs @ src # ys"
  by (simp add: search_def Let_def collect_concat search_source_sources_update
      search_source_unrecognized)

text \<open>
  The name \<open>slack\<close> between the two known sources.
\<close>

theorem unrecognized_source_ignored_witness:
  "''slack'' \<noteq> ''google_drive'' \<and> ''slack'' \<noteq> ''notion''
   \<and> results (search (search_google_drive 0) (search_notion 0) 7
        \<lparr>query = ''budget'', sources = [''google_drive'', ''slack'', ''notion''],
         max_results = 10, include_content = True\<rparr>
        \<lparr>user_id = ''u1'', email = ''u1@example.com'',
         scopes = [''workplace:read:google_drive'', ''workplace:read:notion''], exp_claim = 0\<rparr>) =
     results (search (search_google_drive 0) (search_notion 0) 7
        \<lparr>query = ''budget'', sources = [''google_drive'', ''notion''],
         max_results = 10, include_content = True\<rparr>
        \<lparr>user_id = ''u1'', email = ''u1@example.com'',
         scopes = [''workplace:read:google_drive'', ''workplace:read:notion''], exp_claim = 0\<rparr>)
   \<and> resp_sources (search (search_google_drive 0) (search_notion 0) 7
        \<lparr>query = ''budget'', sources = [''google_drive'', ''slack'', ''notion''],
         max_results = 10, include_content = True\<rparr>
        \<lparr>user_id = ''u1'', email = ''u1@example.com'',
         scopes = [''workplace:read:google_drive'', ''workplace:read:notion''], exp_claim = 0\<rparr>) =
     [''google_drive'', ''slack'', ''notion'']"
  using unrecognized_source_ignored [of "''slack''" "search_google_drive 0" "search_notion 0" 7
        "[''google_drive'']" "[''notion'']"
        "\<lparr>query = ''budget'', sources = [],
         max_results = 10, include_content = True\<rparr>"
        "\<lparr>user_id = ''u1'', email = ''u1@example.com'',
         scopes = [''workplace:read:google_drive'', ''workplace:read:notion''], exp_claim = 0\<rparr>"]
  by simp

text \<open>
  C9 as stated fails on the echoed \<open>sources\<close>: the response to the sources
  \<open>[slack]\<close> is not the response to the empty list.
\<close>

theorem unrecognized_source_counterexample:
  "search (search_google_drive 0) (search_notion 0) 7
        \<lparr>query = ''budget'', sources = [''slack''], max_results = 10, include_content = True\<rparr>
        \<lparr>user_id = ''u1'', email = ''u1@example.com'',
         scopes = [''workplace:read:google_drive'', ''workplace:read:notion''], exp_claim = 0\<rparr>
   \<noteq> search (search_google_drive 0) (search_notion 0) 7
        \<lparr>query = ''budget'', sources = [], max_results = 10, include_content = True\<rparr>
        \<lparr>user_id = ''u1'', email = ''u1@example.com'',
         scopes = [''workplace:read:google_drive'', ''workplace:read:notion''], exp_claim = 0\<rparr>"
  by (simp add: search_def Let_def)

text \<open>
  C10. A backend contributes results for a source only if the scope
  \<open>workplace:read:<source>\<close> is itself among the scopes. So a claim set whose only scope
  is \<open>workplace:read\<close> passes the permission check of \<open>call_tool\<close>, and the search then
  returns no result, whatever the backends, the query and the sources are; \<open>call_tool\<close>
  answers every well-formed request of such a caller with that empty response.
\<close>

theorem broad_scope_yields_nothing:
  "call_tool_permission ''workplace:read'' (user\<lparr>scopes := [''workplace:read'']\<rparr>) = Inr ()
   \<and> results (search gd nt elapsed_ms request (user\<lparr>scopes := [''workplace:read'']\<rparr>)) = []
   \<and> total_count (search gd nt elapsed_ms request (user\<lparr>scopes := [''workplace:read'']\<rparr>)) = 0
   \<and> (search_source gd nt request u src \<noteq> [] \<longrightarrow>
        (''workplace:read:'' @ src) \<in> set (scopes u))
   \<and> (WorkplaceSearchRequest_make arguments = Inr request \<longrightarrow>
        call_tool gd nt elapsed_ms ''workplace_search'' arguments
            (user\<lparr>scopes := [''workplace:read'']\<rparr>) =
          Inr (search gd nt elapsed_ms request (user\<lparr>scopes := [''workplace:read'']\<rparr>)))"
proof -
  have perm: "call_tool_permission ''workplace:read'' (user\<lparr>scopes := [''workplace:read'']\<rparr>) = Inr ()"
    by (simp add: call_tool_permission_def)
  have none: "search_source gd nt request (user\<lparr>scopes := [''workplace:read'']\<rparr>) = (\<lambda>src. [])"
    by (simp add: search_source_def fun_eq_iff)
  have res: "results (search gd nt elapsed_ms request (user\<lparr>scopes := [''workplace:read'']\<rparr>)) = []"
    by (simp add: results_search none slice_to_def concat_map_Nil)
  have cnt: "total_count (search gd nt elapsed_ms request (user\<lparr>scopes := [''workplace:read'']\<rparr>)) = 0"
    using res by (simp add: search_def Let_def)
  have gate: "search_source gd nt request u src \<noteq> [] \<longrightarrow>
        (''workplace:read:'' @ src) \<in> set (scopes u)"
    by (auto simp: search_source_def split: if_splits)
  have call: "WorkplaceSearchRequest_make arguments = Inr request \<longrightarrow>
        call_tool gd nt elapsed_ms ''workplace_search'' arguments
            (user\<lparr>scopes := [''workplace:read'']\<rparr>) =
          Inr (search gd nt elapsed_ms request (user\<lparr>scopes := [''workplace:read'']\<rparr>))"
    by (simp add: call_tool_def perm json_serializable_def res)
  from perm res cnt gate call show ?thesis by blast
qed

text \<open>
  The default request of a caller scoped \<open>workplace:read\<close> alone, and a contribution of
  the Notion mock under its exact scope.
\<close>

theorem broad_scope_yields_nothing_witness:
  "call_tool (search_google_drive 0) (search_notion 0) 7 ''workplace_search''
      \<lparr>arg_query = Some ''budget'', arg_sources = None, arg_max_results = None,
       arg_include_content = None\<rparr>
      \<lparr>user_id = ''u1'', email = ''u1@example.com'', scopes = [''workplace:read''],
       exp_claim = 0\<rparr> =
     Inr \<lparr>results = [], total_count = 0, resp_query = ''budget'',
          resp_sources = [''google_drive'', ''notion''], execution_time_ms = 7\<rparr>
   \<and> search_source (search_google_drive 0) (search_notion 0)
        \<lparr>query = ''budget'', sources = [''google_drive'', ''notion''], max_results = 10,
         include_content = True\<rparr>
        \<lparr>user_id = ''u1'', email = ''u1@example.com'',
         scopes = [''workplace:read:notion''], exp_claim = 0\<rparr> ''notion'' \<noteq> []
   \<and> (''workplace:read:'' @ ''notion'') \<in> set [''workplace:read:notion'']"
  using broad_scope_yields_nothing [of
      "\<lparr>user_id = ''u1'', email = ''u1@example.com'', scopes = [''workplace:read''],
       exp_claim = 0\<rparr>"
      "search_google_drive 0" "search_notion 0" 7
      "\<lparr>query = ''budget'', sources = [''google_drive'', ''notion''], max_results = 10,
         include_content = True\<rparr>"
      "\<lparr>user_id = ''u1'', email = ''u1@example.com'',
         scopes = [''workplace:read:notion''], exp_claim = 0\<rparr>" "''notion''"
      "\<lparr>arg_query = Some ''budget'', arg_sources = None, arg_max_results = None,
       arg_include_content = None\<rparr>"]
  by (simp add: WorkplaceSearchRequest_make_def search_def search_source_def search_notion_def
      slice_to_def user_tokens_def call_tool_def call_tool_permission_def
      json_serializable_def)

section \<open>Request validation\<close>

text \<open>
  C8. Constructing a \<open>WorkplaceSearchRequest\<close> with \<open>max_results\<close> below 1 or above
  50 fails with a validation error, so that no request, clamped or not, comes out of it;
  with a query and \<open>max_results\<close> between 1 and 50 it succeeds and the request carries
  that value.
\<close>

theorem max_results_bounds:
  "(arg_max_results args = Some m \<and> (m < 1 \<or> 50 < m) \<longrightarrow>
      (\<exists>msg. WorkplaceSearchRequest_make args = Inl (ValidationError msg)))
   \<and> (arg_query args = Some q \<and> arg_max_results args = Some m \<and> 1 \<le> m \<and> m \<le> 50 \<longrightarrow>
      (\<exists>request. WorkplaceSearchRequest_make args = Inr request
          \<and> max_results request = m \<and> query request = q))"
  by (auto simp: WorkplaceSearchRequest_make_def Let_def split: option.splits)

text \<open>
  The values 51 and 0 are refused, 50 is accepted.
\<close>

theorem max_results_bounds_witness:
  "(\<exists>msg. WorkplaceSearchRequest_make
       \<lparr>arg_query = Some ''budget'', arg_sources = None, arg_max_results = Some 51,
        arg_include_content = None\<rparr> = Inl (ValidationError msg))
   \<and> (\<exists>msg. WorkplaceSearchRequest_make
       \<lparr>arg_query = Some ''budget'', arg_sources = None, arg_max_results = Some 0,
        arg_include_content = None\<rparr> = Inl (ValidationError msg))
   \<and> (\<exists>request. WorkplaceSearchRequest_make
       \<lparr>arg_query = Some ''budget'', arg_sources = None, arg_max_results = Some 50,
        arg_include_content = None\<rparr> = Inr request \<and> max_results request = 50)"
  using
    max_results_bounds [of "\<lparr>arg_query = Some ''budget'', arg_sources = None,
        arg_max_results = Some 51, arg_include_content = None\<rparr>" 51 "''budget''"]
    max_results_bounds [of "\<lparr>arg_query = Some ''budget'', arg_sources = None,
        arg_max_results = Some 0, arg_include_content = None\<rparr>" 0 "''budget''"]
    max_results_bounds [of "\<lparr>arg_query = Some ''budget'', arg_sources = None,
        arg_max_results = Some 50, arg_include_content = None\<rparr>" 50 "''budget''"]
  by auto

end
